theory Spec2Isabelle
  imports Complex_Main
begin

section \<open>Floating-point values of the data frame\<close>

text \<open>
  The columns of the pandas frame hold IEEE 754 doubles. A value is a finite number, one of
  the two infinities, or not-a-number. pandas uses not-a-number as its marker for a missing
  entry, so "no value" in a column is \<open>NaN\<close>. Finite values are modelled by exact reals:
  rounding, overflow to infinity and the sign of zero are outside this model.
\<close>

datatype fl = Fin real | PInf | NInf | NaN

fun is_finite :: "fl \<Rightarrow> bool" where
  "is_finite (Fin x) = True"
| "is_finite _ = False"

fun is_infinite :: "fl \<Rightarrow> bool" where
  "is_infinite PInf = True"
| "is_infinite NInf = True"
| "is_infinite _ = False"

fun fl_neg :: "fl \<Rightarrow> fl" where
  "fl_neg (Fin x) = Fin (- x)"
| "fl_neg PInf = NInf"
| "fl_neg NInf = PInf"
| "fl_neg NaN = NaN"

fun fl_add :: "fl \<Rightarrow> fl \<Rightarrow> fl" where
  "fl_add NaN _ = NaN"
| "fl_add _ NaN = NaN"
| "fl_add (Fin x) (Fin y) = Fin (x + y)"
| "fl_add PInf NInf = NaN"
| "fl_add NInf PInf = NaN"
| "fl_add PInf _ = PInf"
| "fl_add NInf _ = NInf"
| "fl_add (Fin x) PInf = PInf"
| "fl_add (Fin x) NInf = NInf"

definition fl_sub :: "fl \<Rightarrow> fl \<Rightarrow> fl" where
  "fl_sub a b = fl_add a (fl_neg b)"

text \<open>
  Division of doubles never raises: a non-zero number over zero is an infinity, zero over
  zero and infinity over infinity are not-a-number, a finite number over an infinity is zero.
  The sign of the infinity of a division by zero follows the sign of the zero; with the one
  zero of this model a positive number over zero is plus infinity.
\<close>

fun fl_div :: "fl \<Rightarrow> fl \<Rightarrow> fl" where
  "fl_div NaN _ = NaN"
| "fl_div _ NaN = NaN"
| "fl_div (Fin x) (Fin y) =
     (if y \<noteq> 0 then Fin (x / y)
      else if x = 0 then NaN
      else if 0 < x then PInf else NInf)"
| "fl_div (Fin x) PInf = Fin 0"
| "fl_div (Fin x) NInf = Fin 0"
| "fl_div PInf (Fin y) = (if 0 \<le> y then PInf else NInf)"
| "fl_div NInf (Fin y) = (if 0 \<le> y then NInf else PInf)"
| "fl_div PInf _ = NaN"
| "fl_div NInf _ = NaN"

text \<open>Comparisons with not-a-number are false.\<close>

fun fl_gt :: "fl \<Rightarrow> fl \<Rightarrow> bool" where
  "fl_gt NaN _ = False"
| "fl_gt _ NaN = False"
| "fl_gt (Fin x) (Fin y) = (y < x)"
| "fl_gt PInf PInf = False"
| "fl_gt PInf _ = True"
| "fl_gt NInf _ = False"
| "fl_gt (Fin x) PInf = False"
| "fl_gt (Fin x) NInf = True"

definition fl_lt :: "fl \<Rightarrow> fl \<Rightarrow> bool" where
  "fl_lt a b = fl_gt b a"

section \<open>Series operations of pandas used by the application\<close>

text \<open>
  \<^verbatim>\<open>Series.diff()\<close>: the first entry is missing, every other entry is the difference to
  its predecessor.
\<close>

definition diff :: "fl list \<Rightarrow> fl list" where
  "diff xs = map (\<lambda>i. if i = 0 then NaN else fl_sub (xs ! i) (xs ! (i - 1))) [0..<length xs]"

text \<open>
  \<^verbatim>\<open>s.where(cond, other)\<close>: keeps the entries at which the condition holds and puts
  \<open>other\<close> everywhere else.
\<close>

definition series_where :: "(fl \<Rightarrow> bool) \<Rightarrow> fl \<Rightarrow> fl list \<Rightarrow> fl list" where
  "series_where cond other xs = map (\<lambda>x. if cond x then x else other) xs"

subsection \<open>The rolling mean\<close>

text \<open>
  \<^verbatim>\<open>s.rolling(window).mean()\<close> with an integer window: \<open>min_periods\<close> defaults to the
  window, infinities are turned into missing values before the aggregation, and the
  aggregation slides over the values keeping the number of observations and their sum:
  for each index the values that left the window are removed, the values that entered it are
  added, and the mean is emitted when at least \<open>min_periods\<close> observations are present.
  The window of index \<open>i\<close> is \<open>[start i, end i)\<close> with \<open>end i = i + 1\<close> and
  \<open>start i = max 0 (i + 1 - window)\<close>.
\<close>

definition prep_values :: "fl list \<Rightarrow> fl list" where
  "prep_values xs = map (\<lambda>x. if is_finite x then x else NaN) xs"

fun add_mean :: "fl \<Rightarrow> nat \<times> real \<Rightarrow> nat \<times> real" where
  "add_mean (Fin x) (nobs, sum_x) = (nobs + 1, sum_x + x)"
| "add_mean _ st = st"

fun remove_mean :: "fl \<Rightarrow> nat \<times> real \<Rightarrow> nat \<times> real" where
  "remove_mean (Fin x) (nobs, sum_x) = (nobs - 1, sum_x - x)"
| "remove_mean _ st = st"

fun calc_mean :: "nat \<Rightarrow> nat \<times> real \<Rightarrow> fl" where
  "calc_mean minp (nobs, sum_x) =
     (if minp \<le> nobs \<and> 0 < nobs then Fin (sum_x / real nobs) else NaN)"

definition roll_start :: "nat \<Rightarrow> nat \<Rightarrow> nat" where
  "roll_start win i = i + 1 - win"

definition roll_end :: "nat \<Rightarrow> nat" where
  "roll_end i = i + 1"

definition roll_step :: "nat \<Rightarrow> fl list \<Rightarrow> nat \<Rightarrow> nat \<times> real \<Rightarrow> nat \<times> real" where
  "roll_step win vs i st =
     (let s = roll_start win i; e = roll_end i in
      if i = 0 \<or> roll_end (i - 1) \<le> s
      then fold (\<lambda>j. add_mean (vs ! j)) [s..<e] (0, 0)
      else fold (\<lambda>j. add_mean (vs ! j)) [roll_end (i - 1)..<e]
             (fold (\<lambda>j. remove_mean (vs ! j)) [roll_start win (i - 1)..<s] st))"

text \<open>The loop over the indices: \<open>n\<close> indices remain, \<open>i\<close> is the current one.\<close>

fun roll_mean :: "nat \<Rightarrow> fl list \<Rightarrow> nat \<Rightarrow> nat \<Rightarrow> nat \<times> real \<Rightarrow> fl list" where
  "roll_mean win vs 0 i st = []"
| "roll_mean win vs (Suc n) i st =
     (let st' = roll_step win vs i st
      in calc_mean win st' # roll_mean win vs n (Suc i) st')"

definition rolling_mean :: "nat \<Rightarrow> fl list \<Rightarrow> fl list" where
  "rolling_mean window xs =
     (let vs = prep_values xs in roll_mean window vs (length vs) 0 (0, 0))"

section \<open>The application\<close>

text \<open>One row of the frame \<^verbatim>\<open>data[['Date', 'Close', 'Volume']]\<close>.\<close>

record bar =
  Date :: int
  Close :: fl
  Volume :: int

text \<open>
  \<^verbatim>\<open>
  def calculate_rsi(data, periods=14):
      delta = data['Close'].diff()
      gain = (delta.where(delta > 0, 0)).rolling(window=periods).mean()
      loss = (-delta.where(delta < 0, 0)).rolling(window=periods).mean()
      rs = gain / loss
      return 100 - (100 / (1 + rs))
  \<close>
\<close>

definition rsi_delta :: "bar list \<Rightarrow> fl list" where
  "rsi_delta data = diff (map Close data)"

text \<open>
  The two series that are averaged: \<^verbatim>\<open>delta.where(delta > 0, 0)\<close> and
  \<^verbatim>\<open>-delta.where(delta < 0, 0)\<close>.
\<close>

definition rsi_up :: "bar list \<Rightarrow> fl list" where
  "rsi_up data = series_where (\<lambda>d. fl_gt d (Fin 0)) (Fin 0) (rsi_delta data)"

definition rsi_down :: "bar list \<Rightarrow> fl list" where
  "rsi_down data = map fl_neg (series_where (\<lambda>d. fl_lt d (Fin 0)) (Fin 0) (rsi_delta data))"

definition rsi_gain :: "bar list \<Rightarrow> nat \<Rightarrow> fl list" where
  "rsi_gain data periods = rolling_mean periods (rsi_up data)"

definition rsi_loss :: "bar list \<Rightarrow> nat \<Rightarrow> fl list" where
  "rsi_loss data periods = rolling_mean periods (rsi_down data)"

definition rsi_rs :: "bar list \<Rightarrow> nat \<Rightarrow> fl list" where
  "rsi_rs data periods = map2 fl_div (rsi_gain data periods) (rsi_loss data periods)"

definition calculate_rsi :: "bar list \<Rightarrow> nat \<Rightarrow> fl list" where
  "calculate_rsi data periods =
     map (\<lambda>r. fl_sub (Fin 100) (fl_div (Fin 100) (fl_add (Fin 1) r))) (rsi_rs data periods)"

subsection \<open>The handler of the "Start Analysis" button\<close>

text \<open>
  The frame kept in \<^verbatim>\<open>st.session_state.data\<close>: the rows with the three indicator
  columns added.
\<close>

record indicators =
  rows :: "bar list"
  MA_Short :: "fl list"
  MA_Long :: "fl list"
  RSI :: "fl list"

text \<open>
  \<^verbatim>\<open>
  data_new['MA_Short'] = data_new['Close'].rolling(ma_short).mean()
  data_new['MA_Long'] = data_new['Close'].rolling(ma_long).mean()
  data_new['RSI'] = calculate_rsi(data_new)
  \<close>
\<close>

definition analyse :: "nat \<Rightarrow> nat \<Rightarrow> bar list \<Rightarrow> indicators" where
  "analyse ma_short ma_long data_new =
     \<lparr>rows = data_new,
      MA_Short = rolling_mean ma_short (map Close data_new),
      MA_Long = rolling_mean ma_long (map Close data_new),
      RSI = calculate_rsi data_new 14\<rparr>"

text \<open>
  The download either raises (the handler catches every exception) or returns a frame.
  The handler maps the session state to the new session state and the messages it shows
  with \<^verbatim>\<open>st.error\<close>.
\<close>

datatype fetch = Raised string | Returned "bar list"

definition start_analysis ::
  "nat \<Rightarrow> nat \<Rightarrow> fetch \<Rightarrow> indicators option \<Rightarrow> indicators option \<times> string list" where
  "start_analysis ma_short ma_long download session =
     (case download of
        Raised e \<Rightarrow> (session, [''An error occurred: '' @ e])
      | Returned data \<Rightarrow>
          if data = [] then (session, [''No data found. Please enter a valid symbol.''])
          else (Some (analyse ma_short ma_long data), []))"

subsection \<open>The dashboard\<close>

datatype py_error = IndexError

text \<open>\<^verbatim>\<open>s.iloc[-1]\<close> raises on an empty series.\<close>

definition iloc_last :: "'a list \<Rightarrow> py_error + 'a" where
  "iloc_last xs = (if xs = [] then Inl IndexError else Inr (last xs))"

text \<open>
  \<^verbatim>\<open>
  trend = "Rise" if ma_short_value > ma_long_value else "Drop"
  rsi_status = "Overbought" if latest_rsi > 70 else ("Oversold" if latest_rsi < 30 else "Normal")
  \<close>
\<close>

definition classify_trend :: "fl \<Rightarrow> fl \<Rightarrow> string" where
  "classify_trend ma_short_value ma_long_value =
     (if fl_gt ma_short_value ma_long_value then ''Rise'' else ''Drop'')"

definition classify_rsi_status :: "fl \<Rightarrow> string" where
  "classify_rsi_status latest_rsi =
     (if fl_gt latest_rsi (Fin 70) then ''Overbought''
      else if fl_lt latest_rsi (Fin 30) then ''Oversold'' else ''Normal'')"

record panel =
  latest_price :: fl
  ma_short_value :: fl
  ma_long_value :: fl
  trend :: string
  latest_rsi :: fl
  rsi_status :: string

text \<open>
  The dashboard is rendered only when the session holds a frame; it reads the last row and
  classifies it. Nothing catches an exception there.
\<close>

definition dashboard :: "indicators option \<Rightarrow> (py_error + panel) option" where
  "dashboard session =
     (case session of
        None \<Rightarrow> None
      | Some d \<Rightarrow> Some
          (case iloc_last (map Close (rows d)) of Inl e \<Rightarrow> Inl e | Inr price \<Rightarrow>
           case iloc_last (MA_Short d) of Inl e \<Rightarrow> Inl e | Inr s \<Rightarrow>
           case iloc_last (MA_Long d) of Inl e \<Rightarrow> Inl e | Inr l \<Rightarrow>
           case iloc_last (RSI d) of Inl e \<Rightarrow> Inl e | Inr r \<Rightarrow>
             Inr \<lparr>latest_price = price, ma_short_value = s, ma_long_value = l,
                  trend = classify_trend s l, latest_rsi = r,
                  rsi_status = classify_rsi_status r\<rparr>))"

section \<open>Notions of the specification\<close>

text \<open>
  The moving average as the specification words it: at index \<open>i\<close> the arithmetic mean of
  the closes at the indices \<open>i - p + 1\<close> to \<open>i\<close>, defined when \<open>i \<ge> p - 1\<close>, and
  no value before.
\<close>

definition moving_average_spec :: "nat \<Rightarrow> real list \<Rightarrow> nat \<Rightarrow> fl" where
  "moving_average_spec p closes i =
     (if p - 1 \<le> i then Fin (sum_list (map (\<lambda>j. closes ! j) [i + 1 - p..<i + 1]) / real p)
      else NaN)"

text \<open>A value of the RSI column is acceptable when it is missing or a number from 0 to 100.\<close>

fun missing_or_percent :: "fl \<Rightarrow> bool" where
  "missing_or_percent (Fin r) = (0 \<le> r \<and> r \<le> 100)"
| "missing_or_percent NaN = True"
| "missing_or_percent _ = False"

text \<open>A number from 0 to 100.\<close>

fun percent :: "fl \<Rightarrow> bool" where
  "percent (Fin r) = (0 \<le> r \<and> r \<le> 100)"
| "percent _ = False"

fun increasing :: "real list \<Rightarrow> bool" where
  "increasing (x # y # zs) = (x < y \<and> increasing (y # zs))"
| "increasing _ = True"

section \<open>Auxiliary notions for the rolling mean\<close>

fun the_fin :: "fl \<Rightarrow> real" where
  "the_fin (Fin x) = x"
| "the_fin _ = 0"

definition obs_count :: "fl list \<Rightarrow> nat list \<Rightarrow> nat" where
  "obs_count vs js = length (filter (\<lambda>j. is_finite (vs ! j)) js)"

definition obs_sum :: "fl list \<Rightarrow> nat list \<Rightarrow> real" where
  "obs_sum vs js = sum_list (map (\<lambda>j. the_fin (vs ! j)) js)"

definition win_state :: "nat \<Rightarrow> fl list \<Rightarrow> nat \<Rightarrow> nat \<times> real" where
  "win_state win vs i =
     (obs_count vs [roll_start win i..<roll_end i], obs_sum vs [roll_start win i..<roll_end i])"

text \<open>
  The rolling mean in closed form: the mean of the window when the window is complete and
  holds only finite values, missing otherwise.
\<close>

definition window_mean :: "nat \<Rightarrow> fl list \<Rightarrow> nat \<Rightarrow> fl" where
  "window_mean p xs i =
     (if 0 < p \<and> p \<le> i + 1 \<and> list_all (\<lambda>j. is_finite (xs ! j)) [i + 1 - p..<i + 1]
      then Fin (sum_list (map (\<lambda>j. the_fin (xs ! j)) [i + 1 - p..<i + 1]) / real p)
      else NaN)"

section \<open>Auxiliary notions for the RSI\<close>

text \<open>
  The two averaged series hold non-negative numbers or plus infinity; their rolling means
  are missing or non-negative numbers.
\<close>

fun nonneg_or_pinf :: "fl \<Rightarrow> bool" where
  "nonneg_or_pinf (Fin r) = (0 \<le> r)"
| "nonneg_or_pinf PInf = True"
| "nonneg_or_pinf _ = False"

fun missing_or_nonneg :: "fl \<Rightarrow> bool" where
  "missing_or_nonneg (Fin r) = (0 \<le> r)"
| "missing_or_nonneg NaN = True"
| "missing_or_nonneg _ = False"

section \<open>Concrete price series\<close>

definition bars_of :: "real list \<Rightarrow> bar list" where
  "bars_of cs = map (\<lambda>(k, c). \<lparr>Date = int k, Close = Fin c, Volume = 1000\<rparr>) (enumerate 0 cs)"

definition ma_bars :: "bar list" where
  "ma_bars = bars_of [1, 2, 3, 4]"

definition table_a :: "bar list" where
  "table_a = [\<lparr>Date = 1, Close = Fin 10, Volume = 500\<rparr>, \<lparr>Date = 2, Close = Fin 12, Volume = 700\<rparr>,
              \<lparr>Date = 3, Close = Fin 11, Volume = 600\<rparr>]"

definition table_b :: "bar list" where
  "table_b = [\<lparr>Date = 40, Close = Fin 10, Volume = 0\<rparr>, \<lparr>Date = 41, Close = Fin 12, Volume = 9\<rparr>,
              \<lparr>Date = 45, Close = Fin 11, Volume = 3\<rparr>]"

definition flat_bars :: "bar list" where
  "flat_bars = bars_of (replicate 15 100)"

definition level_bars :: "bar list" where
  "level_bars = bars_of [7, 7, 7]"

definition plateau_bars :: "bar list" where
  "plateau_bars = bars_of ([1, 2, 3, 4] @ replicate 16 5)"

definition wavy_bars :: "bar list" where
  "wavy_bars = bars_of [10, 12, 11, 15]"

definition rising_bars :: "bar list" where
  "rising_bars = bars_of [1, 2, 3, 4, 5, 6, 7, 8, 9, 10, 11, 12, 13, 14]"

definition mixed_bars :: "bar list" where
  "mixed_bars = bars_of [10, 12, 11]"

definition climb_bars :: "bar list" where
  "climb_bars = bars_of [1, 2, 3, 4]"

definition uphill_bars :: "bar list" where
  "uphill_bars = bars_of [3, 5, 6, 10]"

definition short_bars :: "bar list" where
  "short_bars = bars_of [10, 11, 12]"

definition brief_bars :: "bar list" where
  "brief_bars = bars_of [20, 19]"

section \<open>The rolling mean is the mean of the window\<close>

text \<open>
  The sliding aggregation keeps, after index \<open>i\<close>, the number and the sum of the finite
  values of the window of \<open>i\<close>.
\<close>

lemma the_fin_not_finite [simp]: "\<not> is_finite v \<Longrightarrow> the_fin v = 0"
  by (cases v) simp_all

lemma add_mean_cases:
  "add_mean v (n, s) = (if is_finite v then (n + 1, s + the_fin v) else (n, s))"
  by (cases v) simp_all

lemma remove_mean_cases:
  "remove_mean v (n, s) = (if is_finite v then (n - 1, s - the_fin v) else (n, s))"
  by (cases v) simp_all

lemma fold_add_mean:
  "fold (\<lambda>j. add_mean (vs ! j)) js (n, s) = (n + obs_count vs js, s + obs_sum vs js)"
  by (induction js arbitrary: n s) (simp_all add: obs_count_def obs_sum_def add_mean_cases)

lemma fold_remove_mean:
  "fold (\<lambda>j. remove_mean (vs ! j)) js (n, s) = (n - obs_count vs js, s - obs_sum vs js)"
  by (induction js arbitrary: n s) (simp_all add: obs_count_def obs_sum_def remove_mean_cases)

lemma obs_count_append: "obs_count vs (js @ ks) = obs_count vs js + obs_count vs ks"
  by (simp add: obs_count_def)

lemma obs_sum_append: "obs_sum vs (js @ ks) = obs_sum vs js + obs_sum vs ks"
  by (simp add: obs_sum_def)

lemma roll_step_first: "roll_step win vs 0 st = win_state win vs 0"
  by (simp add: roll_step_def win_state_def fold_add_mean Let_def)

lemma upt_split3:
  assumes "a \<le> b" "b \<le> c"
  shows "[a..<c] = [a..<b] @ [b..<c]"
  using assms by (metis le_Suc_ex upt_add_eq_append)

lemma roll_step_next:
  "roll_step win vs (Suc i) (win_state win vs i) = win_state win vs (Suc i)"
proof (cases "roll_end i \<le> roll_start win (Suc i)")
  case True
  then show ?thesis
    by (simp add: roll_step_def win_state_def fold_add_mean Let_def)
next
  case False
  let ?a = "roll_start win i" and ?s = "roll_start win (Suc i)"
  let ?e = "roll_end i" and ?e' = "roll_end (Suc i)"
  have le: "?a \<le> ?s" "?s \<le> ?e" "?e \<le> ?e'"
    using False by (simp_all add: roll_start_def roll_end_def)
  have old: "[?a..<?e] = [?a..<?s] @ [?s..<?e]"
    using le by (intro upt_split3)
  have new: "[?s..<?e'] = [?s..<?e] @ [?e..<?e']"
    using le by (intro upt_split3)
  have "roll_step win vs (Suc i) (win_state win vs i) =
      (obs_count vs [?a..<?e] - obs_count vs [?a..<?s] + obs_count vs [?e..<?e'],
       obs_sum vs [?a..<?e] - obs_sum vs [?a..<?s] + obs_sum vs [?e..<?e'])"
    using False by (simp add: roll_step_def win_state_def fold_add_mean fold_remove_mean Let_def)
  also have "\<dots> = (obs_count vs [?s..<?e'], obs_sum vs [?s..<?e'])"
    unfolding old new obs_count_append obs_sum_append by simp
  finally show ?thesis by (simp add: win_state_def)
qed

lemma roll_mean_states:
  assumes "i = 0 \<or> st = win_state win vs (i - 1)"
  shows "roll_mean win vs n i st = map (\<lambda>k. calc_mean win (win_state win vs k)) [i..<i + n]"
  using assms
proof (induction n arbitrary: i st)
  case 0
  then show ?case by simp
next
  case (Suc n)
  have step: "roll_step win vs i st = win_state win vs i"
  proof (cases i)
    case 0
    then show ?thesis by (simp add: roll_step_first)
  next
    case (Suc k)
    with Suc.prems have "st = win_state win vs k" by simp
    then show ?thesis using Suc by (simp add: roll_step_next)
  qed
  have "roll_mean win vs n (Suc i) (win_state win vs i) =
      map (\<lambda>k. calc_mean win (win_state win vs k)) [Suc i..<Suc i + n]"
    by (rule Suc.IH) simp
  then show ?case
    by (simp add: step Let_def upt_rec [of i])
qed

lemma length_rolling_mean: "length (rolling_mean p xs) = length xs"
  by (simp add: rolling_mean_def Let_def prep_values_def roll_mean_states)

lemma rolling_mean_state:
  assumes "i < length xs"
  shows "rolling_mean p xs ! i = calc_mean p (win_state p (prep_values xs) i)"
  using assms by (simp add: rolling_mean_def Let_def roll_mean_states prep_values_def)

lemma prep_values_nth:
  "j < length xs \<Longrightarrow> is_finite (prep_values xs ! j) = is_finite (xs ! j)"
  "j < length xs \<Longrightarrow> the_fin (prep_values xs ! j) = the_fin (xs ! j)"
  by (simp_all add: prep_values_def)

lemma obs_count_prep:
  assumes "\<forall>j\<in>set js. j < length xs"
  shows "obs_count (prep_values xs) js = obs_count xs js"
  unfolding obs_count_def
  by (rule arg_cong [where f = length], rule filter_cong) (use assms in \<open>simp_all add: prep_values_nth\<close>)

lemma obs_sum_prep:
  assumes "\<forall>j\<in>set js. j < length xs"
  shows "obs_sum (prep_values xs) js = obs_sum xs js"
  unfolding obs_sum_def
  by (rule arg_cong [where f = sum_list], rule map_cong) (use assms in \<open>simp_all add: prep_values_nth\<close>)

lemma obs_count_le: "obs_count xs js \<le> length js"
  by (simp add: obs_count_def)

lemma obs_count_full:
  "obs_count xs js = length js \<longleftrightarrow> list_all (\<lambda>j. is_finite (xs ! j)) js"
proof (induction js)
  case Nil
  then show ?case by (simp add: obs_count_def)
next
  case (Cons j js)
  have "length (filter (\<lambda>j. is_finite (xs ! j)) js) \<le> length js"
    by (rule length_filter_le)
  then have "length (filter (\<lambda>j. is_finite (xs ! j)) js) \<noteq> Suc (length js)"
    by arith
  with Cons show ?case by (auto simp add: obs_count_def)
qed

lemma rolling_mean_nth:
  assumes "i < length xs"
  shows "rolling_mean p xs ! i = window_mean p xs i"
proof -
  let ?js = "[i + 1 - p..<i + 1]"
  have in_range: "\<forall>j\<in>set ?js. j < length xs"
    using assms by auto
  have st: "rolling_mean p xs ! i = calc_mean p (obs_count xs ?js, obs_sum xs ?js)"
    using assms in_range
    by (simp add: rolling_mean_state win_state_def roll_start_def roll_end_def
        obs_count_prep obs_sum_prep)
  have len: "length ?js = min p (i + 1)" by auto
  show ?thesis
  proof (cases "0 < p \<and> p \<le> i + 1 \<and> list_all (\<lambda>j. is_finite (xs ! j)) ?js")
    case True
    then have "obs_count xs ?js = p"
      using obs_count_full [of xs ?js] len by simp
    with True show ?thesis
      by (simp add: st window_mean_def obs_sum_def)
  next
    case False
    have "obs_count xs ?js < p \<or> obs_count xs ?js = 0"
    proof (cases "0 < p \<and> p \<le> i + 1")
      case True
      with False have "obs_count xs ?js \<noteq> length ?js"
        using obs_count_full [of xs ?js] by simp
      with obs_count_le [of xs ?js] have "obs_count xs ?js < length ?js" by simp
      with len True show ?thesis by simp
    next
      case False
      with obs_count_le [of xs ?js] len show ?thesis by auto
    qed
    with False show ?thesis
      by (auto simp add: st window_mean_def)
  qed
qed

lemma rolling_mean_finite:
  assumes "0 < p" "i < length cs"
  shows "rolling_mean p (map Fin cs) ! i = moving_average_spec p cs i"
proof -
  let ?js = "[i + 1 - p..<i + 1]"
  have in_range: "j < length cs" if "j \<in> set ?js" for j
    using that assms by auto
  have all: "list_all (\<lambda>j. is_finite (map Fin cs ! j)) ?js"
    unfolding list_all_iff using in_range by simp
  have vals: "map (\<lambda>j. the_fin (map Fin cs ! j)) ?js = map (\<lambda>j. cs ! j) ?js"
    by (rule map_cong) (use in_range in simp_all)
  have nth: "rolling_mean p (map Fin cs) ! i = window_mean p (map Fin cs) i"
    using assms by (simp add: rolling_mean_nth)
  show ?thesis
  proof (cases "p - 1 \<le> i")
    case True
    then have "0 < p \<and> p \<le> i + 1 \<and> list_all (\<lambda>j. is_finite (map Fin cs ! j)) ?js"
      using assms all by simp
    then have "window_mean p (map Fin cs) i =
        Fin (sum_list (map (\<lambda>j. the_fin (map Fin cs ! j)) ?js) / real p)"
      by (simp only: window_mean_def if_True simp_thms)
    also have "\<dots> = moving_average_spec p cs i"
      by (simp only: moving_average_spec_def True if_True vals)
    finally show ?thesis by (simp only: nth)
  next
    case False
    then have "\<not> p \<le> i + 1" by simp
    with False show ?thesis
      by (simp add: nth window_mean_def moving_average_spec_def)
  qed
qed

lemma rolling_mean_short:
  assumes "length xs < p"
  shows "rolling_mean p xs = replicate (length xs) NaN"
proof (rule nth_equalityI)
  show "length (rolling_mean p xs) = length (replicate (length xs) NaN)"
    by (simp add: length_rolling_mean)
next
  fix i assume "i < length (rolling_mean p xs)"
  then have "i < length xs" by (simp add: length_rolling_mean)
  with assms show "rolling_mean p xs ! i = replicate (length xs) NaN ! i"
    by (simp add: rolling_mean_nth window_mean_def)
qed

section \<open>Moving averages\<close>

text \<open>
  Claim C1. For a price series of length \<open>N\<close> with finite closes and positive window
  lengths, each of the two moving-average columns has length \<open>N\<close>; its entry at index
  \<open>i\<close> is the arithmetic mean of the closes at the indices \<open>i - p + 1\<close> to \<open>i\<close> when
  \<open>i \<ge> p - 1\<close> and is missing before; when the window is longer than the series the
  column is entirely missing, and nothing is raised: the rolling mean is a total function.
  The short and the long column are computed independently of each other.
\<close>

theorem moving_average_contract:
  assumes "0 < ma_short" "0 < ma_long" and "map Close data = map Fin closes"
  shows "length (MA_Short (analyse ma_short ma_long data)) = length data
     \<and> length (MA_Long (analyse ma_short ma_long data)) = length data
     \<and> (\<forall>i<length data.
           MA_Short (analyse ma_short ma_long data) ! i = moving_average_spec ma_short closes i
         \<and> MA_Long (analyse ma_short ma_long data) ! i = moving_average_spec ma_long closes i)
     \<and> (length data < ma_short \<longrightarrow>
           MA_Short (analyse ma_short ma_long data) = replicate (length data) NaN)
     \<and> (length data < ma_long \<longrightarrow>
           MA_Long (analyse ma_short ma_long data) = replicate (length data) NaN)"
proof -
  have len: "length closes = length data"
    using assms(3) by (metis length_map)
  have "length (map Close data) = length data" by simp
  then show ?thesis
    using assms len rolling_mean_short [of "map Close data"]
    by (simp add: analyse_def length_rolling_mean rolling_mean_finite)
qed

theorem moving_average_contract_witness:
  "map Close ma_bars = map Fin [1, 2, 3, 4]
   \<and> MA_Short (analyse 2 5 ma_bars) ! 0 = NaN
   \<and> MA_Short (analyse 2 5 ma_bars) ! 2 = Fin (5 / 2)
   \<and> MA_Long (analyse 2 5 ma_bars) = [NaN, NaN, NaN, NaN]"
proof -
  have h: "map Close ma_bars = map Fin [1, 2, 3, 4]"
    by code_simp
  have n: "length ma_bars = 4"
    by code_simp
  show ?thesis
    using moving_average_contract [of 2 5 ma_bars "[1, 2, 3, 4]"] h n
    by (simp add: moving_average_spec_def numeral_eq_Suc)
qed

section \<open>Classification of the latest row\<close>

text \<open>
  Claim C7. For numbers as the latest moving averages, the trend is Rise exactly when the
  short average is greater than the long one and Drop otherwise; equal averages give Drop.
\<close>

theorem trend_classification:
  "classify_trend (Fin s) (Fin l) = (if l < s then ''Rise'' else ''Drop'')
   \<and> classify_trend (Fin 10) (Fin 10) = ''Drop''"
  by (simp add: classify_trend_def)

text \<open>
  Claim C8. For a number as the latest RSI, the status is Overbought exactly above 70,
  Oversold exactly below 30 and Normal otherwise; 70 and 30 themselves are Normal.
\<close>

theorem rsi_status_classification:
  "classify_rsi_status (Fin r) =
     (if 70 < r then ''Overbought'' else if r < 30 then ''Oversold'' else ''Normal'')
   \<and> classify_rsi_status (Fin 70) = ''Normal''
   \<and> classify_rsi_status (Fin 30) = ''Normal''"
  by (simp add: classify_rsi_status_def fl_lt_def)

section \<open>The empty download\<close>

text \<open>
  Claim C9. When the download returns an empty frame, the handler shows the no-data message
  and leaves the session state as it was: no indicator frame is computed or stored for the
  request, and from an empty session no dashboard is rendered. The outcome differs from
  the one of a failed download and from the one of a download with rows.
\<close>

theorem no_data_is_terminal:
  "start_analysis ma_short ma_long (Returned []) session =
     (session, [''No data found. Please enter a valid symbol.''])
   \<and> dashboard (fst (start_analysis ma_short ma_long (Returned []) None)) = None
   \<and> start_analysis ma_short ma_long (Returned []) session \<noteq>
       start_analysis ma_short ma_long (Raised e) session
   \<and> start_analysis ma_short ma_long (Returned []) session \<noteq>
       start_analysis ma_short ma_long (Returned (b # bs)) session"
  by (simp add: start_analysis_def dashboard_def)

section \<open>The RSI reads the Close column only\<close>

text \<open>
  Claim C10. Two frames with the same Close column have the same RSI, whatever their Date
  and Volume columns hold; as a function, the RSI of one input is one value.
\<close>

theorem rsi_depends_on_close_only:
  assumes "map Close data1 = map Close data2"
  shows "calculate_rsi data1 periods = calculate_rsi data2 periods"
  using assms
  by (simp add: calculate_rsi_def rsi_rs_def rsi_gain_def rsi_loss_def rsi_up_def rsi_down_def
      rsi_delta_def)

theorem rsi_depends_on_close_only_witness:
  "map Close table_a = map Close table_b \<and> table_a \<noteq> table_b
   \<and> calculate_rsi table_a 2 = calculate_rsi table_b 2"
proof -
  have h: "map Close table_a = map Close table_b"
    by (simp add: table_a_def table_b_def)
  have d: "table_a \<noteq> table_b"
    by (simp add: table_a_def table_b_def)
  show ?thesis
    using rsi_depends_on_close_only [OF h, of 2] h d by simp
qed

section \<open>The RSI column\<close>

lemma length_rsi_delta [simp]: "length (rsi_delta data) = length data"
  by (simp add: rsi_delta_def diff_def)

lemma length_rsi_up [simp]: "length (rsi_up data) = length data"
  by (simp add: rsi_up_def series_where_def)

lemma length_rsi_down [simp]: "length (rsi_down data) = length data"
  by (simp add: rsi_down_def series_where_def)

lemma length_rsi_gain [simp]: "length (rsi_gain data p) = length data"
  by (simp add: rsi_gain_def length_rolling_mean)

lemma length_rsi_loss [simp]: "length (rsi_loss data p) = length data"
  by (simp add: rsi_loss_def length_rolling_mean)

lemma length_calculate_rsi: "length (calculate_rsi data p) = length data"
  by (simp add: calculate_rsi_def rsi_rs_def)

lemma rsi_delta_nth:
  assumes "i < length data"
  shows "rsi_delta data ! i =
    (if i = 0 then NaN else fl_sub (Close (data ! i)) (Close (data ! (i - 1))))"
  using assms by (simp add: rsi_delta_def diff_def)

lemma rsi_up_nth:
  assumes "i < length data"
  shows "rsi_up data ! i =
    (if fl_gt (rsi_delta data ! i) (Fin 0) then rsi_delta data ! i else Fin 0)"
  using assms by (simp add: rsi_up_def series_where_def)

lemma rsi_down_nth:
  assumes "i < length data"
  shows "rsi_down data ! i =
    fl_neg (if fl_lt (rsi_delta data ! i) (Fin 0) then rsi_delta data ! i else Fin 0)"
  using assms by (simp add: rsi_down_def series_where_def)

lemma rsi_gain_nth:
  "i < length data \<Longrightarrow> rsi_gain data p ! i = window_mean p (rsi_up data) i"
  by (simp add: rsi_gain_def rolling_mean_nth)

lemma rsi_loss_nth:
  "i < length data \<Longrightarrow> rsi_loss data p ! i = window_mean p (rsi_down data) i"
  by (simp add: rsi_loss_def rolling_mean_nth)

lemma calculate_rsi_nth:
  assumes "i < length data"
  shows "calculate_rsi data p ! i =
    fl_sub (Fin 100) (fl_div (Fin 100)
      (fl_add (Fin 1) (fl_div (rsi_gain data p ! i) (rsi_loss data p ! i))))"
  using assms by (simp add: calculate_rsi_def rsi_rs_def)

lemma up_value: "nonneg_or_pinf (if fl_gt d (Fin 0) then d else Fin 0)"
  by (cases d) simp_all

lemma down_value: "nonneg_or_pinf (fl_neg (if fl_lt d (Fin 0) then d else Fin 0))"
  by (cases d) (simp_all add: fl_lt_def)

lemma the_fin_nonneg: "nonneg_or_pinf v \<Longrightarrow> 0 \<le> the_fin v"
  by (cases v) simp_all

lemma window_mean_nonneg:
  assumes "\<forall>j<length xs. nonneg_or_pinf (xs ! j)" "i < length xs"
  shows "missing_or_nonneg (window_mean p xs i)"
proof -
  let ?js = "[i + 1 - p..<i + 1]"
  have "0 \<le> sum_list (map (\<lambda>j. the_fin (xs ! j)) ?js)"
  proof (rule sum_list_nonneg)
    fix x assume "x \<in> set (map (\<lambda>j. the_fin (xs ! j)) ?js)"
    then obtain j where "j \<in> set ?js" "x = the_fin (xs ! j)" by auto
    moreover from this assms have "j < length xs" by auto
    ultimately show "0 \<le> x" using assms the_fin_nonneg by simp
  qed
  then show ?thesis
    by (simp only: window_mean_def split: if_split) simp
qed

lemma rsi_gain_value:
  assumes "i < length data"
  shows "missing_or_nonneg (rsi_gain data p ! i)"
  using assms by (simp add: rsi_gain_nth window_mean_nonneg rsi_up_nth up_value)

lemma rsi_loss_value:
  assumes "i < length data"
  shows "missing_or_nonneg (rsi_loss data p ! i)"
  using assms by (simp add: rsi_loss_nth window_mean_nonneg rsi_down_nth down_value)

lemma percent_bounds:
  fixes g l :: real
  assumes "0 \<le> g" "0 < l"
  shows "0 \<le> 100 - 100 / (1 + g / l)" "100 - 100 / (1 + g / l) \<le> 100"
proof -
  have "1 \<le> 1 + g / l" using assms by simp
  then have "100 / (1 + g / l) \<le> 100" "0 \<le> 100 / (1 + g / l)"
    by (simp_all add: divide_le_eq)
  then show "0 \<le> 100 - 100 / (1 + g / l)" "100 - 100 / (1 + g / l) \<le> 100"
    by simp_all
qed

lemma rsi_formula_value:
  assumes "missing_or_nonneg g" "missing_or_nonneg l"
  shows "missing_or_percent (fl_sub (Fin 100) (fl_div (Fin 100) (fl_add (Fin 1) (fl_div g l))))"
proof (cases g)
  case (Fin x)
  show ?thesis
  proof (cases l)
    case (Fin y)
    with \<open>g = Fin x\<close> assms have "0 \<le> x" "0 \<le> y" by simp_all
    then consider "0 < y" | "y = 0" "x = 0" | "y = 0" "0 < x" by fastforce
    then show ?thesis
    proof cases
      case 1
      have "1 + x / y \<noteq> 0" using \<open>0 \<le> x\<close> 1
        by (metis add_nonneg_pos add.commute divide_nonneg_pos less_numeral_extra(1) less_irrefl)
      with percent_bounds [OF \<open>0 \<le> x\<close> 1] 1 show ?thesis
        by (simp add: \<open>g = Fin x\<close> \<open>l = Fin y\<close> fl_sub_def)
    next
      case 2
      then show ?thesis by (simp add: \<open>g = Fin x\<close> \<open>l = Fin y\<close> fl_sub_def)
    next
      case 3
      then show ?thesis by (simp add: \<open>g = Fin x\<close> \<open>l = Fin y\<close> fl_sub_def)
    qed
  qed (use assms Fin in \<open>simp_all add: fl_sub_def\<close>)
qed (use assms in \<open>simp_all add: fl_sub_def\<close>)

lemma window_mean_zero:
  assumes "\<forall>j<length xs. xs ! j = Fin 0" "i < length xs"
  shows "window_mean p xs i = Fin 0 \<or> window_mean p xs i = NaN"
proof -
  let ?js = "[i + 1 - p..<i + 1]"
  have "map (\<lambda>j. the_fin (xs ! j)) ?js = map (\<lambda>j. 0) ?js"
    by (rule map_cong) (use assms in auto)
  then have "sum_list (map (\<lambda>j. the_fin (xs ! j)) ?js) = 0"
    by (simp only: sum_list_0)
  then show ?thesis
    by (simp only: window_mean_def split: if_split) simp
qed

lemma flat_delta:
  assumes "\<forall>b\<in>set data. Close b = Fin c" "j < length data"
  shows "rsi_delta data ! j = NaN \<or> rsi_delta data ! j = Fin 0"
  using assms by (simp add: rsi_delta_nth fl_sub_def)

lemma flat_up:
  assumes "\<forall>b\<in>set data. Close b = Fin c" "j < length data"
  shows "rsi_up data ! j = Fin 0"
  using flat_delta [OF assms] assms(2) by (auto simp add: rsi_up_nth)

lemma flat_down:
  assumes "\<forall>b\<in>set data. Close b = Fin c" "j < length data"
  shows "rsi_down data ! j = Fin 0"
  using flat_delta [OF assms] assms(2) by (auto simp add: rsi_down_nth fl_lt_def)

lemma rsi_no_movement:
  assumes "g = Fin 0 \<or> g = NaN" "l = Fin 0 \<or> l = NaN"
  shows "fl_sub (Fin 100) (fl_div (Fin 100) (fl_add (Fin 1) (fl_div g l))) = NaN"
  using assms by (auto simp add: fl_sub_def)

text \<open>
  Claim C2, as the code has it. Where the average gain and the average loss are both zero
  the RSI is missing (zero over zero is not-a-number), and so the RSI of a flat price
  series is missing at every index; it is not 50.
\<close>

theorem rsi_flat_is_missing:
  assumes "i < length data"
  shows "(rsi_gain data periods ! i = Fin 0 \<and> rsi_loss data periods ! i = Fin 0
            \<longrightarrow> calculate_rsi data periods ! i = NaN)
       \<and> ((\<forall>b\<in>set data. Close b = Fin c) \<longrightarrow> calculate_rsi data periods ! i = NaN)"
proof (intro conjI impI)
  assume "rsi_gain data periods ! i = Fin 0 \<and> rsi_loss data periods ! i = Fin 0"
  then show "calculate_rsi data periods ! i = NaN"
    using assms by (simp add: calculate_rsi_nth fl_sub_def)
next
  assume flat: "\<forall>b\<in>set data. Close b = Fin c"
  have up: "\<forall>j<length (rsi_up data). rsi_up data ! j = Fin 0"
    using flat_up [OF flat] by simp
  have down: "\<forall>j<length (rsi_down data). rsi_down data ! j = Fin 0"
    using flat_down [OF flat] by simp
  have "rsi_gain data periods ! i = Fin 0 \<or> rsi_gain data periods ! i = NaN"
    using assms window_mean_zero [OF up, of i periods] by (simp add: rsi_gain_nth)
  moreover have "rsi_loss data periods ! i = Fin 0 \<or> rsi_loss data periods ! i = NaN"
    using assms window_mean_zero [OF down, of i periods] by (simp add: rsi_loss_nth)
  ultimately show "calculate_rsi data periods ! i = NaN"
    using assms by (simp add: calculate_rsi_nth rsi_no_movement)
qed

text \<open>
  Fifteen bars at 100 with the default look-back: index 14 is past the warm-up and the
  RSI there is missing.
\<close>

theorem rsi_flat_counterexample:
  "calculate_rsi flat_bars 14 ! 14 = NaN \<and> calculate_rsi flat_bars 14 ! 14 \<noteq> Fin 50"
  by code_simp

theorem rsi_flat_is_missing_witness:
  "2 < length level_bars \<and> rsi_gain level_bars 2 ! 2 = Fin 0 \<and> rsi_loss level_bars 2 ! 2 = Fin 0
   \<and> map Close level_bars = [Fin 7, Fin 7, Fin 7] \<and> calculate_rsi level_bars 2 ! 2 = NaN"
proof -
  have h: "2 < length level_bars" by code_simp
  have g: "rsi_gain level_bars 2 ! 2 = Fin 0" by code_simp
  have l: "rsi_loss level_bars 2 ! 2 = Fin 0" by code_simp
  have f: "\<forall>b\<in>set level_bars. Close b = Fin 7" by code_simp
  have c: "map Close level_bars = [Fin 7, Fin 7, Fin 7]" by code_simp
  have r: "calculate_rsi level_bars 2 ! 2 = NaN"
    using rsi_flat_is_missing [OF h, of 2 7] f by blast
  show ?thesis
    using h g l c r by (intro conjI)
qed

text \<open>
  Whatever the closes are, no entry of the RSI column is infinite or outside 0 to 100.
\<close>

lemma rsi_column_values:
  "list_all missing_or_percent (calculate_rsi data periods)"
  unfolding list_all_length
  by (simp add: length_calculate_rsi calculate_rsi_nth rsi_formula_value rsi_gain_value rsi_loss_value)

lemma window_mean_warm_up: "i + 1 < p \<Longrightarrow> window_mean p xs i = NaN"
  by (simp add: window_mean_def)

lemma finite_delta:
  assumes "\<forall>b\<in>set data. is_finite (Close b)" "j < length data"
  shows "rsi_delta data ! j = NaN \<or> is_finite (rsi_delta data ! j)"
proof (cases j)
  case 0
  with assms show ?thesis by (simp add: rsi_delta_nth)
next
  case (Suc k)
  with assms have "is_finite (Close (data ! j))" "is_finite (Close (data ! k))"
    by simp_all
  then obtain x y where "Close (data ! j) = Fin x" "Close (data ! k) = Fin y"
    by (metis is_finite.elims(2))
  with Suc assms show ?thesis by (simp add: rsi_delta_nth fl_sub_def)
qed

lemma finite_up:
  assumes "\<forall>b\<in>set data. is_finite (Close b)" "j < length data"
  shows "is_finite (rsi_up data ! j)"
  using finite_delta [OF assms] assms(2) by (auto simp add: rsi_up_nth)

lemma finite_down:
  assumes "\<forall>b\<in>set data. is_finite (Close b)" "j < length data"
  shows "is_finite (rsi_down data ! j)"
proof -
  have "is_finite (fl_neg v)" if "is_finite v" for v
    using that by (cases v) simp_all
  then show ?thesis
    using finite_delta [OF assms] assms(2) by (auto simp add: rsi_down_nth fl_lt_def)
qed

lemma window_mean_defined:
  assumes "\<forall>j<length xs. is_finite (xs ! j)" "i < length xs" "0 < p" "p \<le> i + 1"
  shows "is_finite (window_mean p xs i)"
proof -
  have "list_all (\<lambda>j. is_finite (xs ! j)) [i + 1 - p..<i + 1]"
    unfolding list_all_iff using assms by auto
  with assms show ?thesis
    by (simp only: window_mean_def if_True simp_thms is_finite.simps)
qed

text \<open>
  Claim C4, as the code has it. The RSI column has the length of the input. Its entries
  at the indices below \<open>periods - 1\<close> are missing. The first difference is missing, but
  both averaged series hold 0 at index 0, so it is counted in the averages as a day without
  movement: for prices that are numbers both averages are numbers from index
  \<open>periods - 1\<close> on, one index earlier than the look-back length.
\<close>

theorem rsi_warm_up:
  "length (calculate_rsi data periods) = length data
   \<and> (\<forall>i<length data. i + 1 < periods \<longrightarrow> calculate_rsi data periods ! i = NaN)
   \<and> (data \<noteq> [] \<longrightarrow> rsi_up data ! 0 = Fin 0 \<and> rsi_down data ! 0 = Fin 0)
   \<and> (\<forall>i<length data.
         (\<forall>b\<in>set data. is_finite (Close b)) \<and> 0 < periods \<and> periods \<le> i + 1 \<longrightarrow>
         is_finite (rsi_gain data periods ! i) \<and> is_finite (rsi_loss data periods ! i))"
proof (intro conjI allI impI)
  show "length (calculate_rsi data periods) = length data"
    by (rule length_calculate_rsi)
next
  fix i assume "i < length data" "i + 1 < periods"
  then show "calculate_rsi data periods ! i = NaN"
    by (simp add: calculate_rsi_nth rsi_gain_nth window_mean_warm_up fl_sub_def)
next
  assume "data \<noteq> []"
  then show "rsi_up data ! 0 = Fin 0"
    by (simp add: rsi_up_nth rsi_delta_nth)
next
  assume "data \<noteq> []"
  then show "rsi_down data ! 0 = Fin 0"
    by (simp add: rsi_down_nth rsi_delta_nth fl_lt_def)
next
  fix i
  assume i: "i < length data"
    and h: "(\<forall>b\<in>set data. is_finite (Close b)) \<and> 0 < periods \<and> periods \<le> i + 1"
  have "\<forall>j<length (rsi_up data). is_finite (rsi_up data ! j)"
    using h finite_up by simp
  with i h show "is_finite (rsi_gain data periods ! i)"
    by (simp add: rsi_gain_nth window_mean_defined)
next
  fix i
  assume i: "i < length data"
    and h: "(\<forall>b\<in>set data. is_finite (Close b)) \<and> 0 < periods \<and> periods \<le> i + 1"
  have "\<forall>j<length (rsi_down data). is_finite (rsi_down data ! j)"
    using h finite_down by simp
  with i h show "is_finite (rsi_loss data periods ! i)"
    by (simp add: rsi_loss_nth window_mean_defined)
qed

text \<open>
  Fourteen rising bars with the default look-back of 14: the RSI at index 13 is 100, and
  the average gain there is 13/14, the thirteen differences and the 0 of index 0 over 14.
\<close>

theorem rsi_warm_up_counterexample:
  "length rising_bars = 14 \<and> calculate_rsi rising_bars 14 ! 13 = Fin 100
   \<and> rsi_up rising_bars ! 0 = Fin 0 \<and> rsi_gain rising_bars 14 ! 13 = Fin (13 / 14)"
  by code_simp

theorem rsi_warm_up_witness:
  "length (calculate_rsi mixed_bars 2) = 3
   \<and> calculate_rsi mixed_bars 2 ! 0 = NaN
   \<and> rsi_up mixed_bars ! 0 = Fin 0 \<and> rsi_down mixed_bars ! 0 = Fin 0
   \<and> map Close mixed_bars = [Fin 10, Fin 12, Fin 11]
   \<and> is_finite (rsi_gain mixed_bars 2 ! 1) \<and> is_finite (rsi_loss mixed_bars 2 ! 1)"
proof -
  have n: "length mixed_bars = 3" by code_simp
  have ne: "mixed_bars \<noteq> []" by code_simp
  have f: "\<forall>b\<in>set mixed_bars. is_finite (Close b)" by code_simp
  have c: "map Close mixed_bars = [Fin 10, Fin 12, Fin 11]" by code_simp
  show ?thesis
    using rsi_warm_up [of mixed_bars 2] n ne f c by simp
qed

lemma increasing_step:
  "increasing cs \<Longrightarrow> Suc k < length cs \<Longrightarrow> cs ! k < cs ! Suc k"
proof (induction cs arbitrary: k rule: increasing.induct)
  case (1 x y zs)
  then show ?case by (cases k) simp_all
qed simp_all

lemma sum_list_positive:
  fixes xs :: "real list"
  assumes "xs \<noteq> []" "\<forall>x\<in>set xs. 0 < x"
  shows "0 < sum_list xs"
  using assms
proof (induction xs)
  case Nil
  then show ?case by simp
next
  case (Cons x xs)
  then show ?case by (cases xs) (simp_all add: add_pos_pos)
qed

lemma rsi_only_gain:
  assumes "0 < g"
  shows "fl_sub (Fin 100) (fl_div (Fin 100) (fl_add (Fin 1) (fl_div (Fin g) (Fin 0)))) = Fin 100"
  using assms by (simp add: fl_sub_def)

lemma increasing_delta:
  assumes "map Close data = map Fin closes" "increasing closes" "0 < j" "j < length data"
  shows "\<exists>d. 0 < d \<and> rsi_delta data ! j = Fin d"
proof -
  have len: "length closes = length data"
    using assms(1) by (metis length_map)
  have cl: "Close (data ! k) = Fin (closes ! k)" if "k < length data" for k
    using that assms(1) len by (metis nth_map)
  obtain k where k: "j = Suc k" using assms(3) by (cases j) simp_all
  with assms len have "closes ! k < closes ! Suc k"
    by (simp add: increasing_step)
  with k assms(4) show ?thesis
    by (simp add: rsi_delta_nth cl fl_sub_def)
qed

lemma window_mean_full:
  assumes "0 < p" "p \<le> i + 1" "list_all (\<lambda>j. is_finite (xs ! j)) [i + 1 - p..<i + 1]"
  shows "window_mean p xs i =
    Fin (sum_list (map (\<lambda>j. the_fin (xs ! j)) [i + 1 - p..<i + 1]) / real p)"
  using assms by (simp only: window_mean_def if_True simp_thms)

lemma increasing_up:
  assumes "map Close data = map Fin closes" "increasing closes" "0 < j" "j < length data"
  shows "is_finite (rsi_up data ! j) \<and> 0 < the_fin (rsi_up data ! j)"
proof -
  obtain d where "0 < d" "rsi_delta data ! j = Fin d"
    using increasing_delta [OF assms] by blast
  with assms(4) show ?thesis by (simp add: rsi_up_nth)
qed

lemma increasing_down:
  assumes "map Close data = map Fin closes" "increasing closes" "0 < j" "j < length data"
  shows "rsi_down data ! j = Fin 0"
proof -
  obtain d where "0 < d" "rsi_delta data ! j = Fin d"
    using increasing_delta [OF assms] by blast
  with assms(4) show ?thesis by (simp add: rsi_down_nth fl_lt_def)
qed

lemma increasing_gain:
  assumes "map Close data = map Fin closes" "increasing closes"
    and "0 < p" "p \<le> i" "i < length data"
  shows "\<exists>g. 0 < g \<and> rsi_gain data p ! i = Fin g"
proof -
  let ?js = "[i + 1 - p..<i + 1]"
  have rng: "0 < j \<and> j < length data" if "j \<in> set ?js" for j
    using that assms(3-5) by auto
  have up: "is_finite (rsi_up data ! j) \<and> 0 < the_fin (rsi_up data ! j)" if "j \<in> set ?js" for j
    using increasing_up [OF assms(1,2)] rng [OF that] by blast
  have all: "list_all (\<lambda>j. is_finite (rsi_up data ! j)) ?js"
    unfolding list_all_iff using up by blast
  have ne: "map (\<lambda>j. the_fin (rsi_up data ! j)) ?js \<noteq> []"
    using assms(3,4) by simp
  have pos: "\<forall>x\<in>set (map (\<lambda>j. the_fin (rsi_up data ! j)) ?js). 0 < x"
    unfolding set_map using up by blast
  have "0 < sum_list (map (\<lambda>j. the_fin (rsi_up data ! j)) ?js)"
    using ne pos by (rule sum_list_positive)
  then have "0 < sum_list (map (\<lambda>j. the_fin (rsi_up data ! j)) ?js) / real p"
    using assms(3) by simp
  moreover have "p \<le> i + 1" using assms(4) by simp
  then have "rsi_gain data p ! i =
      Fin (sum_list (map (\<lambda>j. the_fin (rsi_up data ! j)) ?js) / real p)"
    using assms(3,5) all by (simp only: rsi_gain_nth window_mean_full)
  ultimately show ?thesis by blast
qed

lemma increasing_loss:
  assumes "map Close data = map Fin closes" "increasing closes"
    and "0 < p" "p \<le> i" "i < length data"
  shows "rsi_loss data p ! i = Fin 0"
proof -
  let ?js = "[i + 1 - p..<i + 1]"
  have rng: "0 < j \<and> j < length data" if "j \<in> set ?js" for j
    using that assms(3-5) by auto
  have down: "rsi_down data ! j = Fin 0" if "j \<in> set ?js" for j
    using increasing_down [OF assms(1,2)] rng [OF that] by blast
  have all: "list_all (\<lambda>j. is_finite (rsi_down data ! j)) ?js"
    unfolding list_all_iff using down by simp
  have "map (\<lambda>j. the_fin (rsi_down data ! j)) ?js = map (\<lambda>j. 0) ?js"
    by (rule map_cong) (use down in simp_all)
  then have zero: "sum_list (map (\<lambda>j. the_fin (rsi_down data ! j)) ?js) = 0"
    by (simp only: sum_list_0)
  have "p \<le> i + 1" using assms(4) by simp
  then have "rsi_loss data p ! i =
      Fin (sum_list (map (\<lambda>j. the_fin (rsi_down data ! j)) ?js) / real p)"
    using assms(3,5) all by (simp only: rsi_loss_nth window_mean_full)
  then show ?thesis by (simp only: zero) simp
qed

text \<open>
  Claim C5, as the code has it. Where the average loss is zero and the average gain is
  positive the RSI is exactly 100, and so it is at every index from \<open>periods\<close> on of a
  strictly increasing price series. The code has no branch for the zero divisor: the
  quotient is plus infinity, and the last line of \<^verbatim>\<open>calculate_rsi\<close> maps it to 100.
\<close>

theorem rsi_without_loss_is_100:
  assumes "i < length data"
  shows "(rsi_loss data periods ! i = Fin 0 \<and> rsi_gain data periods ! i = Fin g \<and> 0 < g
            \<longrightarrow> calculate_rsi data periods ! i = Fin 100)
       \<and> (map Close data = map Fin closes \<and> increasing closes \<and> 0 < periods \<and> periods \<le> i
            \<longrightarrow> calculate_rsi data periods ! i = Fin 100)"
proof (intro conjI impI)
  assume h: "rsi_loss data periods ! i = Fin 0 \<and> rsi_gain data periods ! i = Fin g \<and> 0 < g"
  then have "0 < g" by simp
  then show "calculate_rsi data periods ! i = Fin 100"
    using assms h by (simp only: calculate_rsi_nth rsi_only_gain)
next
  assume h: "map Close data = map Fin closes \<and> increasing closes \<and> 0 < periods \<and> periods \<le> i"
  then obtain g' where g': "0 < g'" "rsi_gain data periods ! i = Fin g'"
    using increasing_gain [of data closes periods i] assms by blast
  have l: "rsi_loss data periods ! i = Fin 0"
    using h increasing_loss [of data closes periods i] assms by blast
  show "calculate_rsi data periods ! i = Fin 100"
    using assms g' l by (simp only: calculate_rsi_nth rsi_only_gain)
qed

text \<open>
  Four rising bars with a look-back of 2: at index 2 the average loss is 0, the average
  gain is 1, and the quotient that the code computes and passes on is infinite.
\<close>

theorem rsi_division_counterexample:
  "rsi_loss climb_bars 2 ! 2 = Fin 0 \<and> rsi_gain climb_bars 2 ! 2 = Fin 1
   \<and> is_infinite (rsi_rs climb_bars 2 ! 2)"
  by code_simp

theorem rsi_without_loss_is_100_witness:
  "2 < length uphill_bars
   \<and> rsi_loss uphill_bars 2 ! 2 = Fin 0 \<and> rsi_gain uphill_bars 2 ! 2 = Fin (3 / 2)
   \<and> map Close uphill_bars = map Fin [3, 5, 6, 10] \<and> increasing [3, 5, 6, 10]
   \<and> calculate_rsi uphill_bars 2 ! 2 = Fin 100"
proof -
  have n: "2 < length uphill_bars" by code_simp
  have l: "rsi_loss uphill_bars 2 ! 2 = Fin 0" by code_simp
  have g: "rsi_gain uphill_bars 2 ! 2 = Fin (3 / 2)" by code_simp
  have c: "map Close uphill_bars = map Fin [3, 5, 6, 10]" by code_simp
  have m: "increasing [3, 5, 6, 10 :: real]" by simp
  have r: "calculate_rsi uphill_bars 2 ! 2 = Fin 100"
    using rsi_without_loss_is_100 [OF n, of 2 "3 / 2" "[3, 5, 6, 10]"] l g by simp
  show ?thesis
    using n l g c m r by (intro conjI)
qed

section \<open>Classification of a missing latest value\<close>

lemma classify_missing:
  "classify_trend NaN l = ''Drop''" "classify_trend s NaN = ''Drop''"
  "classify_rsi_status NaN = ''Normal''"
  by (cases s; simp add: classify_trend_def classify_rsi_status_def fl_lt_def)+

lemma dashboard_analyse:
  assumes "data \<noteq> []"
  shows "dashboard (Some (analyse ma_short ma_long data)) =
    Some (Inr \<lparr>latest_price = last (map Close data),
      ma_short_value = last (rolling_mean ma_short (map Close data)),
      ma_long_value = last (rolling_mean ma_long (map Close data)),
      trend = classify_trend (last (rolling_mean ma_short (map Close data)))
                (last (rolling_mean ma_long (map Close data))),
      latest_rsi = last (calculate_rsi data 14),
      rsi_status = classify_rsi_status (last (calculate_rsi data 14))\<rparr>)"
proof -
  have "rolling_mean p (map Close data) \<noteq> []" for p
    using assms length_rolling_mean [of p "map Close data"] by (metis length_0_conv map_is_Nil_conv)
  moreover have "calculate_rsi data 14 \<noteq> []"
    using assms length_calculate_rsi [of data 14] by (metis length_0_conv)
  ultimately show ?thesis
    using assms by (simp add: dashboard_def iloc_last_def analyse_def)
qed

lemma last_rolling_mean_short:
  assumes "xs \<noteq> []" "length xs < p"
  shows "last (rolling_mean p xs) = NaN"
  using assms by (simp add: rolling_mean_short)

lemma last_rsi_short:
  assumes "data \<noteq> []" "length data < periods"
  shows "last (calculate_rsi data periods) = NaN"
proof -
  let ?n = "length data - 1"
  have n: "?n < length data" "?n + 1 < periods" using assms by simp_all
  have "calculate_rsi data periods \<noteq> []"
    using assms length_calculate_rsi [of data periods] by (metis length_0_conv)
  then have "last (calculate_rsi data periods) = calculate_rsi data periods ! ?n"
    by (simp add: last_conv_nth length_calculate_rsi)
  also have "\<dots> = NaN"
    using n by (simp add: calculate_rsi_nth rsi_gain_nth window_mean_warm_up fl_sub_def)
  finally show ?thesis .
qed

text \<open>
  Claim C6, as the code has it. The dashboard classifies the last row of every stored
  frame and never refuses: a missing short or long average gives the trend Drop and a
  missing RSI gives the status Normal, since every comparison with not-a-number is false.
  This is the case whenever the series is shorter than one of the two windows (Drop) or
  shorter than 14 bars (Normal).
\<close>

theorem missing_values_get_default_labels:
  assumes "data \<noteq> []"
  shows "\<exists>p. dashboard (Some (analyse ma_short ma_long data)) = Some (Inr p)
     \<and> (ma_short_value p = NaN \<or> ma_long_value p = NaN \<longrightarrow> trend p = ''Drop'')
     \<and> (latest_rsi p = NaN \<longrightarrow> rsi_status p = ''Normal'')
     \<and> (length data < ma_short \<or> length data < ma_long \<longrightarrow> trend p = ''Drop'')
     \<and> (length data < 14 \<longrightarrow> rsi_status p = ''Normal'')"
proof -
  let ?s = "last (rolling_mean ma_short (map Close data))"
  let ?l = "last (rolling_mean ma_long (map Close data))"
  let ?r = "last (calculate_rsi data 14)"
  let ?p = "\<lparr>latest_price = last (map Close data), ma_short_value = ?s, ma_long_value = ?l,
      trend = classify_trend ?s ?l, latest_rsi = ?r, rsi_status = classify_rsi_status ?r\<rparr>"
  have ne: "map Close data \<noteq> []" using assms by simp
  have d: "dashboard (Some (analyse ma_short ma_long data)) = Some (Inr ?p)"
    using assms by (rule dashboard_analyse)
  have t1: "?s = NaN \<or> ?l = NaN \<longrightarrow> classify_trend ?s ?l = ''Drop''"
    using classify_missing(1,2) by metis
  have t2: "?r = NaN \<longrightarrow> classify_rsi_status ?r = ''Normal''"
    using classify_missing(3) by simp
  have s: "?s = NaN" if "length data < ma_short"
    using that last_rolling_mean_short [OF ne, of ma_short] by simp
  have l: "?l = NaN" if "length data < ma_long"
    using that last_rolling_mean_short [OF ne, of ma_long] by simp
  have t3: "length data < ma_short \<or> length data < ma_long \<longrightarrow> classify_trend ?s ?l = ''Drop''"
    using s l t1 by blast
  have t4: "length data < 14 \<longrightarrow> classify_rsi_status ?r = ''Normal''"
    using last_rsi_short [OF assms, of 14] t2 by blast
  have "(ma_short_value ?p = NaN \<or> ma_long_value ?p = NaN \<longrightarrow> trend ?p = ''Drop'')
     \<and> (latest_rsi ?p = NaN \<longrightarrow> rsi_status ?p = ''Normal'')
     \<and> (length data < ma_short \<or> length data < ma_long \<longrightarrow> trend ?p = ''Drop'')
     \<and> (length data < 14 \<longrightarrow> rsi_status ?p = ''Normal'')"
    using t1 t2 t3 t4 by (simp only: panel.simps)
  with d show ?thesis by blast
qed

text \<open>
  Three bars with the windows 20 and 50: all three latest indicator values are missing, and
  the dashboard shows Drop and Normal.
\<close>

theorem default_labels_counterexample:
  "dashboard (fst (start_analysis 20 50 (Returned short_bars) None)) =
     Some (Inr \<lparr>latest_price = Fin 12, ma_short_value = NaN, ma_long_value = NaN,
                trend = ''Drop'', latest_rsi = NaN, rsi_status = ''Normal''\<rparr>)"
  by code_simp

theorem missing_values_get_default_labels_witness:
  "brief_bars \<noteq> [] \<and> length brief_bars < 5 \<and> length brief_bars < 14
   \<and> dashboard (Some (analyse 5 9 brief_bars)) =
       Some (Inr \<lparr>latest_price = Fin 19, ma_short_value = NaN, ma_long_value = NaN,
                  trend = ''Drop'', latest_rsi = NaN, rsi_status = ''Normal''\<rparr>)"
proof -
  have ne: "brief_bars \<noteq> []" by code_simp
  have n: "length brief_bars < 5" "length brief_bars < 14" by code_simp+
  have d: "dashboard (Some (analyse 5 9 brief_bars)) =
       Some (Inr \<lparr>latest_price = Fin 19, ma_short_value = NaN, ma_long_value = NaN,
                  trend = ''Drop'', latest_rsi = NaN, rsi_status = ''Normal''\<rparr>)"
    by code_simp
  obtain p where p: "dashboard (Some (analyse 5 9 brief_bars)) = Some (Inr p)"
      "length brief_bars < 5 \<or> length brief_bars < 9 \<longrightarrow> trend p = ''Drop''"
      "length brief_bars < 14 \<longrightarrow> rsi_status p = ''Normal''"
    using missing_values_get_default_labels [OF ne, of 5 9] by blast
  from p(1) d have v: "p = \<lparr>latest_price = Fin 19, ma_short_value = NaN, ma_long_value = NaN,
                  trend = ''Drop'', latest_rsi = NaN, rsi_status = ''Normal''\<rparr>"
    by simp
  from p n have "trend p = ''Drop''" "rsi_status p = ''Normal''" by blast+
  with p(1) v ne n show ?thesis by blast
qed

section \<open>The range of the RSI\<close>

lemma numeric_averages:
  assumes "\<forall>b\<in>set data. is_finite (Close b)" "0 < periods" "periods \<le> i + 1" "i < length data"
  shows "\<exists>g l. 0 \<le> g \<and> 0 \<le> l \<and> rsi_gain data periods ! i = Fin g
           \<and> rsi_loss data periods ! i = Fin l"
proof -
  have "\<forall>j<length (rsi_up data). is_finite (rsi_up data ! j)"
    using assms(1) finite_up by simp
  with assms have fg: "is_finite (rsi_gain data periods ! i)"
    by (simp add: rsi_gain_nth window_mean_defined)
  have "\<forall>j<length (rsi_down data). is_finite (rsi_down data ! j)"
    using assms(1) finite_down by simp
  with assms have fl: "is_finite (rsi_loss data periods ! i)"
    by (simp add: rsi_loss_nth window_mean_defined)
  obtain g where g: "rsi_gain data periods ! i = Fin g"
    using fg by (cases "rsi_gain data periods ! i") simp_all
  obtain l where l: "rsi_loss data periods ! i = Fin l"
    using fl by (cases "rsi_loss data periods ! i") simp_all
  have "0 \<le> g" using rsi_gain_value [OF assms(4), of periods] g by simp
  moreover have "0 \<le> l" using rsi_loss_value [OF assms(4), of periods] l by simp
  ultimately show ?thesis using g l by blast
qed

lemma rsi_formula_cases:
  assumes "0 \<le> g" "0 \<le> l"
  shows "if g = 0 \<and> l = 0
    then fl_sub (Fin 100) (fl_div (Fin 100) (fl_add (Fin 1) (fl_div (Fin g) (Fin l)))) = NaN
    else percent (fl_sub (Fin 100) (fl_div (Fin 100) (fl_add (Fin 1) (fl_div (Fin g) (Fin l)))))"
proof -
  consider "0 < l" | "l = 0" "g = 0" | "l = 0" "0 < g"
    using assms by fastforce
  then show ?thesis
  proof cases
    case 1
    have "0 \<le> g / l" using assms(1) 1 by simp
    then have "1 + g / l \<noteq> 0" by linarith
    with percent_bounds [OF assms(1) 1] 1 show ?thesis
      by (simp add: fl_sub_def)
  next
    case 2
    then show ?thesis by (simp add: fl_sub_def)
  next
    case 3
    then show ?thesis by (simp add: fl_sub_def)
  qed
qed

text \<open>
  Claim C3, as the code has it. For prices that are numbers and an index from
  \<open>periods - 1\<close> on, the RSI is not-a-number exactly when the average gain and the
  average loss are both zero, and in every other case it is a number from 0 to 100; it is
  never infinite. For arbitrary closes every entry of the column is missing or a number
  from 0 to 100.
\<close>

theorem rsi_range_past_warm_up:
  assumes "\<forall>b\<in>set data. is_finite (Close b)" "0 < periods" "periods \<le> i + 1" "i < length data"
  shows "(if rsi_gain data periods ! i = Fin 0 \<and> rsi_loss data periods ! i = Fin 0
          then calculate_rsi data periods ! i = NaN
          else percent (calculate_rsi data periods ! i))
       \<and> list_all missing_or_percent (calculate_rsi data periods)"
proof
  obtain g l where gl: "0 \<le> g" "0 \<le> l" "rsi_gain data periods ! i = Fin g"
      "rsi_loss data periods ! i = Fin l"
    using numeric_averages [OF assms] by blast
  show "if rsi_gain data periods ! i = Fin 0 \<and> rsi_loss data periods ! i = Fin 0
          then calculate_rsi data periods ! i = NaN
          else percent (calculate_rsi data periods ! i)"
    using rsi_formula_cases [OF gl(1,2)] assms(4)
    by (simp only: calculate_rsi_nth gl(3,4) fl.inject)
next
  show "list_all missing_or_percent (calculate_rsi data periods)"
    by (rule rsi_column_values)
qed

text \<open>
  A series that rises and then stays level: at index 19, past the warm-up, the RSI is
  not-a-number.
\<close>

theorem rsi_range_counterexample:
  "length plateau_bars = 20 \<and> calculate_rsi plateau_bars 14 ! 19 = NaN"
  by code_simp

theorem rsi_range_past_warm_up_witness:
  "map Close wavy_bars = [Fin 10, Fin 12, Fin 11, Fin 15]
   \<and> rsi_gain wavy_bars 2 ! 2 = Fin 1 \<and> rsi_loss wavy_bars 2 ! 2 = Fin (1 / 2)
   \<and> calculate_rsi wavy_bars 2 ! 2 = Fin (200 / 3)
   \<and> percent (calculate_rsi wavy_bars 2 ! 2)"
proof -
  have f: "\<forall>b\<in>set wavy_bars. is_finite (Close b)" by code_simp
  have n: "2 < length wavy_bars" by code_simp
  have c: "map Close wavy_bars = [Fin 10, Fin 12, Fin 11, Fin 15]" by code_simp
  have g: "rsi_gain wavy_bars 2 ! 2 = Fin 1" by code_simp
  have l: "rsi_loss wavy_bars 2 ! 2 = Fin (1 / 2)" by code_simp
  have v: "calculate_rsi wavy_bars 2 ! 2 = Fin (200 / 3)" by code_simp
  have p: "percent (calculate_rsi wavy_bars 2 ! 2)"
    using rsi_range_past_warm_up [OF f _ _ n, of 2] g l by simp
  show ?thesis
    using c g l v p by (intro conjI)
qed

end
